theory Spec2Isabelle
  imports Main
begin

section \<open>Values that are only known at deployment\<close>

text \<open>
  The stack constructor of \<^verbatim>\<open>src/cdk/lib/china-cloudfront-ssl-plugin-stack.ts\<close> runs at
  synthesis time. Parameter values (\<^verbatim>\<open>domainName.valueAsString\<close>), pseudo parameters
  (\<^verbatim>\<open>Aws.STACK_NAME\<close>) and resource attributes (\<^verbatim>\<open>cert_bucket.bucketName\<close>) are not
  known then: the constructor handles them as tokens and concatenates them with literal
  text. A string of the stack is therefore a list of pieces, and \<^verbatim>\<open>+\<close> on such strings
  is list append.
\<close>

datatype pseudo = STACK_NAME | STACK_ID | REGION | ACCOUNT_ID

text \<open>A number of the stack: a literal, or the value of a Number parameter.\<close>

datatype tnumber = Num int | NumberParam string

datatype piece =
    Lit string
  | StringParam string
  | Pseudo pseudo
  | Attr string string
  | NumberText tnumber

type_synonym tstring = "piece list"

text \<open>
  The value of a parameter in a deployment: text for a String parameter, a number for a
  Number parameter. The one Number parameter of the stack counts days, and its value is
  taken as a whole number.
\<close>

datatype pvalue = StringV string | NumberV int

text \<open>
  A stack instance (one deployment of the stack) fixes the value in effect of every
  parameter (the given one, or the declared default), the pseudo parameters and the
  attributes of the created resources. How a number is written when it is appended to
  text is decided outside the constructor, so it is left to the instance as well.
\<close>

record stack_instance =
  parameter_value :: "string \<Rightarrow> pvalue"
  pseudo_value :: "pseudo \<Rightarrow> string"
  attr_value :: "string \<Rightarrow> string \<Rightarrow> string"
  number_text :: "int \<Rightarrow> string"

section \<open>Stack parameters\<close>

subsection \<open>Allowed patterns\<close>

text \<open>
  The only pattern of the stack is the one of \<^verbatim>\<open>emailAddress\<close>,
  \<^verbatim>\<open>\b[\w.%+-]+@[\w.-]+\.[a-zA-Z]{2,6}\b\<close>: a sequence of character classes, each with
  a repetition count, between two word boundaries. A pattern is a list of such items;
  \<^verbatim>\<open>x+\<close> is a repetition with at least one and no upper count, a single character is
  a repetition of exactly one. A word character (\<^verbatim>\<open>\w\<close>) is a letter of
  \<^verbatim>\<open>a-z\<close> or \<^verbatim>\<open>A-Z\<close>, a digit or the underscore.
\<close>

datatype cclass = Single char | Range char char | WordChar

datatype rx = Boundary | Repeat "cclass list" nat "nat option"

definition is_word_char :: "char \<Rightarrow> bool" where
  "is_word_char c =
     (let n = (of_char c :: nat) in
        (97 \<le> n \<and> n \<le> 122) \<or> (65 \<le> n \<and> n \<le> 90) \<or> (48 \<le> n \<and> n \<le> 57) \<or> n = 95)"

fun in_cclass :: "char \<Rightarrow> cclass \<Rightarrow> bool" where
  "in_cclass c (Single x) = (c = x)"
| "in_cclass c (Range a b) = ((of_char a :: nat) \<le> of_char c \<and> (of_char c :: nat) \<le> of_char b)"
| "in_cclass c WordChar = is_word_char c"

definition in_class :: "cclass list \<Rightarrow> char \<Rightarrow> bool" where
  "in_class cl c = list_ex (in_cclass c) cl"

text \<open>
  A word boundary stands between a word character and a character that is none; the
  start and the end of the text count as no word character.
\<close>

fun word_before :: "char option \<Rightarrow> bool" where
  "word_before None = False"
| "word_before (Some c) = is_word_char c"

fun word_after :: "string \<Rightarrow> bool" where
  "word_after [] = False"
| "word_after (c # cs) = is_word_char c"

fun dec_max :: "nat option \<Rightarrow> nat option" where
  "dec_max None = None"
| "dec_max (Some h) = Some (h - 1)"

text \<open>
  \<open>rx_match rs prev s\<close>: the pattern \<open>rs\<close> matches the whole of \<open>s\<close>, where \<open>prev\<close>
  is the character before \<open>s\<close>. An allowed pattern has to match the entire value.
\<close>

fun rx_match :: "rx list \<Rightarrow> char option \<Rightarrow> string \<Rightarrow> bool" where
  "rx_match [] prev s = (s = [])"
| "rx_match (Boundary # rs) prev s =
     (word_before prev \<noteq> word_after s \<and> rx_match rs prev s)"
| "rx_match (Repeat cl lo hi # rs) prev [] = (lo = 0 \<and> rx_match rs prev [])"
| "rx_match (Repeat cl lo hi # rs) prev (x # xs) =
     ((lo = 0 \<and> rx_match rs prev (x # xs)) \<or>
      (hi \<noteq> Some 0 \<and> in_class cl x \<and>
       rx_match (Repeat cl (lo - 1) (dec_max hi) # rs) (Some x) xs))"

definition full_match :: "rx list \<Rightarrow> string \<Rightarrow> bool" where
  "full_match rs s = rx_match rs None s"

subsection \<open>Parameter declarations\<close>

datatype ParameterType = String | Number

record CfnParameter =
  logicalId :: string
  param_type :: ParameterType
  minLength :: "nat option"
  allowedPattern :: "rx list option"
  minValue :: "int option"
  maxValue :: "int option"
  default_value :: "pvalue option"
  param_description :: string

fun at_least :: "'a::linorder option \<Rightarrow> 'a \<Rightarrow> bool" where
  "at_least None v = True"
| "at_least (Some b) v = (b \<le> v)"

fun at_most :: "'a::linorder option \<Rightarrow> 'a \<Rightarrow> bool" where
  "at_most None v = True"
| "at_most (Some b) v = (v \<le> b)"

fun pattern_ok :: "rx list option \<Rightarrow> string \<Rightarrow> bool" where
  "pattern_ok None s = True"
| "pattern_ok (Some rs) s = full_match rs s"

text \<open>
  The check a deployment makes of one value against the declaration of its parameter,
  before it creates any resource: the value has the declared type, a String is at
  least \<open>minLength\<close> long and matches \<open>allowedPattern\<close>, a Number lies between
  \<open>minValue\<close> and \<open>maxValue\<close>.
\<close>

fun accepts_value :: "CfnParameter \<Rightarrow> pvalue \<Rightarrow> bool" where
  "accepts_value p (StringV s) =
     (param_type p = String \<and> at_least (minLength p) (length s) \<and> pattern_ok (allowedPattern p) s)"
| "accepts_value p (NumberV n) =
     (param_type p = Number \<and> at_least (minValue p) n \<and> at_most (maxValue p) n)"

text \<open>An instance is accepted when every declared parameter accepts its value.\<close>

definition accepts_instance :: "CfnParameter list \<Rightarrow> stack_instance \<Rightarrow> bool" where
  "accepts_instance ps d = list_all (\<lambda>p. accepts_value p (parameter_value d (logicalId p))) ps"

definition domainName :: CfnParameter where
  "domainName = \<lparr>
     logicalId = ''domainName'',
     param_type = String,
     minLength = Some 1,
     allowedPattern = None,
     minValue = None,
     maxValue = None,
     default_value = None,
     param_description = ''Please input your domain names for applying SSL Certificate, please using commas(,) to separate multiple domains. eg.: www.example.cn,example.cn,*.example.com'' \<rparr>"

definition emailAddress_pattern :: "rx list" where
  "emailAddress_pattern =
     [ Boundary,
       Repeat [WordChar, Single CHR ''.'', Single CHR ''%'', Single CHR ''+'', Single CHR ''-''] 1 None,
       Repeat [Single CHR ''@''] 1 (Some 1),
       Repeat [WordChar, Single CHR ''.'', Single CHR ''-''] 1 None,
       Repeat [Single CHR ''.''] 1 (Some 1),
       Repeat [Range CHR ''a'' CHR ''z'', Range CHR ''A'' CHR ''Z''] 2 (Some 6),
       Boundary ]"

definition emailAddress :: CfnParameter where
  "emailAddress = \<lparr>
     logicalId = ''emailAddress'',
     param_type = String,
     minLength = Some 1,
     allowedPattern = Some emailAddress_pattern,
     minValue = None,
     maxValue = None,
     default_value = None,
     param_description = ''Please input your Email address for Email notification.'' \<rparr>"

definition renewIntervalDays :: CfnParameter where
  "renewIntervalDays = \<lparr>
     logicalId = ''renewIntervalDays'',
     param_type = Number,
     minLength = None,
     allowedPattern = None,
     minValue = Some 1,
     maxValue = Some 89,
     default_value = Some (NumberV 80),
     param_description = ''Please input renew interval days between 1 to 89 days, default renew interval days is 80 days.'' \<rparr>"

text \<open>\<^verbatim>\<open>valueAsString\<close> and \<^verbatim>\<open>valueAsNumber\<close> of a parameter are tokens.\<close>

definition valueAsString :: "CfnParameter \<Rightarrow> tstring" where
  "valueAsString p = [StringParam (logicalId p)]"

definition valueAsNumber :: "CfnParameter \<Rightarrow> tnumber" where
  "valueAsNumber p = NumberParam (logicalId p)"

section \<open>Resolving tokens in a stack instance\<close>

fun resolve_number :: "stack_instance \<Rightarrow> tnumber \<Rightarrow> int option" where
  "resolve_number d (Num n) = Some n"
| "resolve_number d (NumberParam p) =
     (case parameter_value d p of NumberV n \<Rightarrow> Some n | StringV s \<Rightarrow> None)"

fun resolve_piece :: "stack_instance \<Rightarrow> piece \<Rightarrow> string" where
  "resolve_piece d (Lit s) = s"
| "resolve_piece d (StringParam p) =
     (case parameter_value d p of StringV s \<Rightarrow> s | NumberV n \<Rightarrow> number_text d n)"
| "resolve_piece d (Pseudo x) = pseudo_value d x"
| "resolve_piece d (Attr r a) = attr_value d r a"
| "resolve_piece d (NumberText t) =
     (case resolve_number d t of Some n \<Rightarrow> number_text d n | None \<Rightarrow> [])"

definition resolve :: "stack_instance \<Rightarrow> tstring \<Rightarrow> string" where
  "resolve d t = concat (map (resolve_piece d) t)"

text \<open>The parameters a token string reads.\<close>

fun piece_params :: "piece \<Rightarrow> string list" where
  "piece_params (StringParam p) = [p]"
| "piece_params (NumberText (NumberParam p)) = [p]"
| "piece_params _ = []"

definition params_of :: "tstring \<Rightarrow> string list" where
  "params_of t = concat (map piece_params t)"

section \<open>Constructs\<close>

subsection \<open>Topic and bucket\<close>

datatype Subscription = EmailSubscription tstring

record Topic =
  topic_id :: string
  displayName :: tstring
  subscriptions :: "Subscription list"

definition addSubscription :: "Subscription \<Rightarrow> Topic \<Rightarrow> Topic" where
  "addSubscription sub t = t\<lparr>subscriptions := subscriptions t @ [sub]\<rparr>"

definition topicArn :: "Topic \<Rightarrow> tstring" where
  "topicArn t = [Attr (topic_id t) ''topicArn'']"

datatype RemovalPolicy = DESTROY | RETAIN

record Bucket =
  bucket_id :: string
  removalPolicy :: RemovalPolicy

definition bucketName :: "Bucket \<Rightarrow> tstring" where
  "bucketName b = [Attr (bucket_id b) ''bucketName'']"

definition bucketArn :: "Bucket \<Rightarrow> tstring" where
  "bucketArn b = [Attr (bucket_id b) ''bucketArn'']"

subsection \<open>Policy statements and permissions\<close>

datatype Effect = ALLOW | DENY

record PolicyStatement =
  resources :: "tstring list"
  actions :: "string list"
  effect :: Effect

text \<open>
  A permission of a function comes from three places, and its id says from which: the
  constructor's own \<^verbatim>\<open>addPermission\<close> calls give the id as text; a rule that takes the
  function as a target adds one for itself; a method of the API that is integrated with
  the function adds one for the method and one for the test invocation of the method.
\<close>

datatype PermissionId =
    Named string
  | AllowEventRule string string
  | ApiPermission string string string
  | ApiPermissionTest string string string

record Permission =
  permission_id :: PermissionId
  perm_action :: string
  principal :: string
  sourceArn :: tstring

subsection \<open>Functions\<close>

datatype DurationUnit = Seconds | Days

datatype Duration = Duration tnumber DurationUnit

definition Duration_seconds :: "int \<Rightarrow> Duration" where
  "Duration_seconds n = Duration (Num n) Seconds"

definition Duration_days :: "tnumber \<Rightarrow> Duration" where
  "Duration_days t = Duration t Days"

datatype Runtime = PYTHON_3_10 | PYTHON_3_9 | NODEJS_18_X

text \<open>
  The properties given to \<^verbatim>\<open>new lambda.Function\<close>. Of the code only the asset path is
  kept (the bundling commands play no part below).
\<close>

record FunctionProps =
  code :: string
  runtime :: Runtime
  handler :: string
  description :: string
  environment :: "(string \<times> tstring) list"
  memorySize :: "nat option"
  timeout :: Duration

text \<open>
  A function has a role. \<open>role_policy\<close> holds the statements of the role's own policy,
  \<open>managed_policies\<close> the names of the managed policies attached to the role.
\<close>

record LambdaFunction =
  function_id :: string
  props :: FunctionProps
  fn_environment :: "(string \<times> tstring) list"
  managed_policies :: "string list"
  role_policy :: "PolicyStatement list"
  permissions :: "Permission list"

text \<open>
  The properties of the stack's functions name no role, so \<^verbatim>\<open>new lambda.Function\<close>
  makes one for each function, with the managed policy
  \<^verbatim>\<open>service-role/AWSLambdaBasicExecutionRole\<close> attached and no statement of its own.
\<close>

definition new_Function :: "string \<Rightarrow> FunctionProps \<Rightarrow> LambdaFunction" where
  "new_Function i p = \<lparr>
     function_id = i,
     props = p,
     fn_environment = environment p,
     managed_policies = [''service-role/AWSLambdaBasicExecutionRole''],
     role_policy = [],
     permissions = [] \<rparr>"

definition addToRolePolicy :: "PolicyStatement \<Rightarrow> LambdaFunction \<Rightarrow> LambdaFunction" where
  "addToRolePolicy st f = f\<lparr>role_policy := role_policy f @ [st]\<rparr>"

definition add_permission ::
  "PermissionId \<Rightarrow> string \<Rightarrow> string \<Rightarrow> tstring \<Rightarrow> LambdaFunction \<Rightarrow> LambdaFunction" where
  "add_permission i a pr arn f =
     f\<lparr>permissions := permissions f @
        [\<lparr>permission_id = i, perm_action = a, principal = pr, sourceArn = arn\<rparr>]\<rparr>"

text \<open>\<^verbatim>\<open>addPermission(id, ...)\<close>, as the constructor calls it: the id is the given text.\<close>

definition addPermission :: "string \<Rightarrow> string \<Rightarrow> string \<Rightarrow> tstring \<Rightarrow> LambdaFunction \<Rightarrow> LambdaFunction" where
  "addPermission i a pr arn f = add_permission (Named i) a pr arn f"

text \<open>\<^verbatim>\<open>addEnvironment\<close> sets one key of the environment, replacing an earlier value.\<close>

definition addEnvironment :: "string \<Rightarrow> tstring \<Rightarrow> LambdaFunction \<Rightarrow> LambdaFunction" where
  "addEnvironment k v f =
     f\<lparr>fn_environment := filter (\<lambda>kv. fst kv \<noteq> k) (fn_environment f) @ [(k, v)]\<rparr>"

subsection \<open>Event rules\<close>

record EventPattern =
  source :: "tstring list"
  detailType :: "tstring list"
  detail_stack_id :: "tstring list"
  detail_status :: "tstring list"

datatype Schedule = Rate Duration

text \<open>
  A rule target made by \<^verbatim>\<open>new targets.LambdaFunction(handler)\<close>: the function, and the
  input to hand to it in place of the matched event, when one is given.
\<close>

record RuleTarget =
  target_function :: string
  target_event :: "tstring option"

definition LambdaFunctionTarget :: "LambdaFunction \<Rightarrow> RuleTarget" where
  "LambdaFunctionTarget f = \<lparr>target_function = function_id f, target_event = None\<rparr>"

record Rule =
  rule_id :: string
  rule_description :: tstring
  enabled :: bool
  eventPattern :: "EventPattern option"
  schedule :: "Schedule option"
  targets :: "RuleTarget list"

definition ruleArn :: "Rule \<Rightarrow> tstring" where
  "ruleArn r = [Attr (rule_id r) ''ruleArn'']"

text \<open>
  \<^verbatim>\<open>rule.addTarget(new targets.LambdaFunction(f))\<close> changes two constructs: the rule
  gets the target, and the function gets the permission that lets the event service
  invoke it for this rule (\<^verbatim>\<open>lambda:InvokeFunction\<close>, source the ARN of the rule),
  unless the rule has given it before. Both are returned.
\<close>

definition addTarget :: "LambdaFunction \<Rightarrow> Rule \<Rightarrow> Rule \<times> LambdaFunction" where
  "addTarget f r =
     (r\<lparr>targets := targets r @ [LambdaFunctionTarget f]\<rparr>,
      if function_id f \<in> set (map target_function (targets r)) then f
      else add_permission (AllowEventRule (rule_id r) (function_id f))
             ''lambda:InvokeFunction'' ''events.amazonaws.com'' (ruleArn r) f)"

subsection \<open>REST API\<close>

text \<open>
  A method is integrated with a function (\<^verbatim>\<open>new LambdaIntegration(f, {proxy: ...})\<close>)
  or, for the preflight method of a resource, with a mock.
\<close>

datatype Integration = LambdaIntegration string bool | MockIntegration

definition new_LambdaIntegration :: "LambdaFunction \<Rightarrow> bool \<Rightarrow> Integration" where
  "new_LambdaIntegration f proxy = LambdaIntegration (function_id f) proxy"

record ApiMethod =
  method_path :: string
  httpMethod :: string
  integration :: Integration

record CorsOptions =
  allowHeaders :: "string list"
  allowMethods :: "string list"
  allowCredentials :: bool
  allowOrigins :: "string list"

datatype EndpointType = REGIONAL | EDGE | PRIVATE

record RestApiProps =
  restApiName :: tstring
  api_description :: tstring
  deploy :: bool
  cloudWatchRole :: bool
  defaultCorsPreflightOptions :: "CorsOptions option"
  endpoint_types :: "EndpointType list"

text \<open>
  An API holds the paths of its resources and the methods on them. Its root resource
  has the path \<open>/\<close>.
\<close>

record RestApi =
  api_id :: string
  api_props :: RestApiProps
  api_resources :: "string list"
  api_methods :: "ApiMethod list"

text \<open>
  With \<^verbatim>\<open>defaultCorsPreflightOptions\<close> every resource of the API, the root first,
  gets a preflight method when it is made: \<^verbatim>\<open>OPTIONS\<close>, on a mock integration.
\<close>

definition addCorsPreflight :: "string \<Rightarrow> RestApi \<Rightarrow> RestApi" where
  "addCorsPreflight path a =
     a\<lparr>api_methods := api_methods a @
        [\<lparr>method_path = path, httpMethod = ''OPTIONS'', integration = MockIntegration\<rparr>]\<rparr>"

definition default_preflight :: "string \<Rightarrow> RestApi \<Rightarrow> RestApi" where
  "default_preflight path a =
     (case defaultCorsPreflightOptions (api_props a) of
        None \<Rightarrow> a
      | Some c \<Rightarrow> addCorsPreflight path a)"

definition new_RestApi :: "string \<Rightarrow> RestApiProps \<Rightarrow> RestApi" where
  "new_RestApi i p =
     default_preflight ''/''
       \<lparr>api_id = i, api_props = p, api_resources = [''/''], api_methods = []\<rparr>"

definition restApiId :: "RestApi \<Rightarrow> tstring" where
  "restApiId a = [Attr (api_id a) ''restApiId'']"

definition root :: "RestApi \<Rightarrow> string" where
  "root a = ''/''"

text \<open>The path of a child resource: the parent's path, a slash unless it ends in one, the part.\<close>

definition child_path :: "string \<Rightarrow> string \<Rightarrow> string" where
  "child_path parent part =
     (if parent \<noteq> [] \<and> last parent = CHR ''/'' then parent @ part else parent @ ''/'' @ part)"

text \<open>\<^verbatim>\<open>addResource\<close> returns the new resource (its path) and the API with it.\<close>

definition addResource :: "string \<Rightarrow> string \<Rightarrow> RestApi \<Rightarrow> string \<times> RestApi" where
  "addResource parent part a =
     (child_path parent part,
      default_preflight (child_path parent part)
        (a\<lparr>api_resources := api_resources a @ [child_path parent part]\<rparr>))"

text \<open>
  The ARN of a method and of its test invocation are known at deployment; they are
  attributes of the API.
\<close>

definition methodArn :: "RestApi \<Rightarrow> string \<Rightarrow> string \<Rightarrow> tstring" where
  "methodArn a m path = [Attr (api_id a) (''methodArn '' @ m @ '' '' @ path)]"

definition testMethodArn :: "RestApi \<Rightarrow> string \<Rightarrow> string \<Rightarrow> tstring" where
  "testMethodArn a m path = [Attr (api_id a) (''testMethodArn '' @ m @ '' '' @ path)]"

text \<open>
  \<^verbatim>\<open>resource.addMethod(m, new LambdaIntegration(f, {proxy: ...}))\<close> changes two
  constructs: the API gets the method, and the function gets two permissions that let
  the API service invoke it, one for the method and one for its test invocation. Both
  are returned.
\<close>

definition addMethod ::
  "string \<Rightarrow> string \<Rightarrow> LambdaFunction \<Rightarrow> bool \<Rightarrow> RestApi \<Rightarrow> RestApi \<times> LambdaFunction" where
  "addMethod path m f proxy a =
     (a\<lparr>api_methods := api_methods a @
        [\<lparr>method_path = path, httpMethod = m, integration = new_LambdaIntegration f proxy\<rparr>]\<rparr>,
      add_permission (ApiPermissionTest (api_id a) m path)
        ''lambda:InvokeFunction'' ''apigateway.amazonaws.com'' (testMethodArn a m path)
        (add_permission (ApiPermission (api_id a) m path)
           ''lambda:InvokeFunction'' ''apigateway.amazonaws.com'' (methodArn a m path) f))"

text \<open>
  \<^verbatim>\<open>addProxy\<close> with \<^verbatim>\<open>anyMethod: true\<close>: a greedy child resource with the method
  \<^verbatim>\<open>ANY\<close> on the default integration.
\<close>

definition addProxy ::
  "string \<Rightarrow> LambdaFunction \<Rightarrow> bool \<Rightarrow> RestApi \<Rightarrow> string \<times> RestApi \<times> LambdaFunction" where
  "addProxy parent f proxy a =
     (case addResource parent ''{proxy+}'' a of (r, a') \<Rightarrow> (r, addMethod r ''ANY'' f proxy a'))"

datatype MethodLoggingLevel = OFF | ERROR | INFO

record ApiDeployment =
  deployment_id :: string
  api :: string

record Stage =
  stage_id :: string
  stageName :: string
  stage_deployment :: string
  dataTraceEnabled :: bool
  loggingLevel :: MethodLoggingLevel

record CfnOutput =
  output_id :: string
  output_value :: tstring
  output_description :: string

section \<open>The stack\<close>

record Stack =
  template_description :: string
  parameters :: "CfnParameter list"
  parameter_groups :: "string list list"
  parameter_labels :: "(string \<times> string) list"
  cert_topic :: Topic
  cert_bucket :: Bucket
  certbot_lambda_fn :: LambdaFunction
  cfn_created_rule :: Rule
  scheduled_event_rule :: Rule
  mgmt_rest_api :: RestApi
  apiDocFunction :: LambdaFunction
  deleteCertFunction :: LambdaFunction
  listCertFunction :: LambdaFunction
  deployment :: ApiDeployment
  deploymentStage :: Stage
  outputs :: "CfnOutput list"

text \<open>
  The constructor of \<^verbatim>\<open>ChinaCloudFrontSslPluginStack\<close>, statement by statement. A
  construct that a later statement changes (\<^verbatim>\<open>addToRolePolicy\<close>, \<^verbatim>\<open>addPermission\<close>,
  \<^verbatim>\<open>addTarget\<close>, \<^verbatim>\<open>addMethod\<close>, \<^verbatim>\<open>addEnvironment\<close>) is bound again under its name,
  also the function that a new target or a new method changes; a construct is referred
  to by its id, so a reference sees the later changes.
\<close>

definition ChinaCloudFrontSslPluginStack :: Stack where
  "ChinaCloudFrontSslPluginStack =
    (let
      cert_topic = \<lparr>
        topic_id = ''Topic'',
        displayName = [Pseudo STACK_NAME] @ [Lit ''-Issue-SSL-Notification''],
        subscriptions = [] \<rparr>;
      cert_topic = addSubscription (EmailSubscription (valueAsString emailAddress)) cert_topic;
      cert_bucket = \<lparr> bucket_id = ''CertBucket'', removalPolicy = DESTROY \<rparr>;
      certbot_lambda_fn = new_Function ''CertBotFunction'' \<lparr>
        code = ''../lambda/CertBot/certbot'',
        runtime = PYTHON_3_10,
        handler = ''app.handler'',
        description = ''Core Function for issuing certificates'',
        environment = [
          (''CERTBOT_BUCKET'', bucketName cert_bucket),
          (''DOMAINS_LIST'', valueAsString domainName),
          (''DOMAINS_EMAIL'', valueAsString emailAddress),
          (''STACK_NAME'', [Pseudo STACK_NAME]),
          (''REGION'', [Pseudo REGION]),
          (''TOPIC_ARN'', topicArn cert_topic),
          (''MAX_DIST_ITEMS'', [Lit ''200'']),
          (''DIST_PAGE_SIZE'', [Lit ''20''])],
        memorySize = Some 256,
        timeout = Duration_seconds 900 \<rparr>;
      certbot_lambda_fn = addToRolePolicy \<lparr>
        resources = [[Lit ''*'']],
        actions = [
          ''cloudfront:GetDistribution'',
          ''cloudfront:ListDistributions'',
          ''cloudfront:UpdateDistribution'',
          ''cloudfront:GetDistributionConfig'',
          ''route53:GetChange'',
          ''iam:ListServerCertificates'',
          ''route53:ListHostedZones''],
        effect = ALLOW \<rparr> certbot_lambda_fn;
      certbot_lambda_fn = addToRolePolicy \<lparr>
        resources = [
          [Lit ''arn:aws-cn:iam::''] @ [Pseudo ACCOUNT_ID] @ [Lit '':server-certificate/*''],
          [Lit ''arn:aws-cn:route53:::hostedzone/*''],
          bucketArn cert_bucket,
          bucketArn cert_bucket @ [Lit ''/*''],
          topicArn cert_topic],
        actions = [
          ''iam:GetServerCertificate'',
          ''iam:UpdateServerCertificate'',
          ''iam:ListServerCertificateTags'',
          ''iam:DeleteServerCertificate'',
          ''iam:TagServerCertificate'',
          ''route53:ChangeResourceRecordSets'',
          ''iam:UntagServerCertificate'',
          ''iam:UploadServerCertificate'',
          ''s3:ListBucket'',
          ''s3:PutObject'',
          ''s3:GetObject'',
          ''sns:Publish''],
        effect = ALLOW \<rparr> certbot_lambda_fn;
      cfn_created_rule = \<lparr>
        rule_id = ''CertCfnCreatedRule'',
        rule_description = [Lit ''Trigger lambda function after stack created''],
        enabled = True,
        eventPattern = Some \<lparr>
          source = [[Lit ''aws.cloudformation'']],
          detailType = [[Lit ''CloudFormation Stack Status Change'']],
          detail_stack_id = [[Pseudo STACK_ID]],
          detail_status = [[Lit ''CREATE_COMPLETE''], [Lit ''UPDATE_COMPLETE'']] \<rparr>,
        schedule = None,
        targets = [] \<rparr>;
      (cfn_created_rule, certbot_lambda_fn) = addTarget certbot_lambda_fn cfn_created_rule;
      certbot_lambda_fn = addPermission ''CertCfnCreatedEventInvokeLambda''
        ''lambda:InvokeFunction'' ''events.amazonaws.com'' (ruleArn cfn_created_rule)
        certbot_lambda_fn;
      scheduled_event_rule = \<lparr>
        rule_id = ''CertScheduledRule'',
        rule_description =
          [Lit ''Automatically trigger cert lambda function every ''] @
          [NumberText (valueAsNumber renewIntervalDays)] @ [Lit '' days''],
        enabled = True,
        eventPattern = None,
        schedule = Some (Rate (Duration_days (valueAsNumber renewIntervalDays))),
        targets = [] \<rparr>;
      (scheduled_event_rule, certbot_lambda_fn) =
        addTarget certbot_lambda_fn scheduled_event_rule;
      certbot_lambda_fn = addPermission ''ScheduledEventsInvokeLambda''
        ''lambda:InvokeFunction'' ''events.amazonaws.com'' (ruleArn cfn_created_rule)
        certbot_lambda_fn;
      mgmt_rest_api = new_RestApi ''SslCertManageAPI'' \<lparr>
        restApiName = [Pseudo STACK_NAME] @ [Lit '': SSL Cert Management API''],
        api_description = [Pseudo STACK_NAME] @ [Lit '': SSL Cert Management API''],
        deploy = False,
        cloudWatchRole = True,
        defaultCorsPreflightOptions = Some \<lparr>
          allowHeaders = [''Content-Type'', ''X-Amz-Date'', ''Authorization'', ''X-Api-Key''],
          allowMethods = [''POST'', ''OPTION''],
          allowCredentials = True,
          allowOrigins = [''*''] \<rparr>,
        endpoint_types = [REGIONAL] \<rparr>;
      invokeUrl =
        [Lit ''https://''] @ restApiId mgmt_rest_api @ [Lit ''.execute-api.''] @
        [Pseudo REGION] @ [Lit ''.amazonaws.com.cn/prod''];
      apiDocFunction = new_Function ''APIExplorerFunction'' \<lparr>
        code = ''../lambda/api-explorer'',
        runtime = NODEJS_18_X,
        handler = ''app.handler'',
        description = ''API Explorer for management certificates'',
        environment = [(''SWAGGER_SPEC_URL'', invokeUrl)],
        memorySize = None,
        timeout = Duration_seconds 20 \<rparr>;
      deleteCertFunction = new_Function ''DeleteCertFunction'' \<lparr>
        code = ''../lambda/ManageCert/DeleteCert'',
        runtime = PYTHON_3_9,
        handler = ''app.handler'',
        description = ''API for delete IAM certificates'',
        environment = [],
        memorySize = None,
        timeout = Duration_seconds 20 \<rparr>;
      listCertFunction = new_Function ''ListCertFunction'' \<lparr>
        code = ''../lambda/ManageCert/ListCert'',
        runtime = PYTHON_3_9,
        handler = ''app.handler'',
        description = ''API for list IAM certificates'',
        environment = [],
        memorySize = None,
        timeout = Duration_seconds 20 \<rparr>;
      deleteCertFunction = addToRolePolicy \<lparr>
        resources = [[Lit ''*'']],
        actions = [''iam:DeleteServerCertificate''],
        effect = ALLOW \<rparr> deleteCertFunction;
      listCertFunction = addToRolePolicy \<lparr>
        resources = [[Lit ''*'']],
        actions = [''iam:ListServerCertificates''],
        effect = ALLOW \<rparr> listCertFunction;
      deployment = \<lparr> deployment_id = ''mgmt_deployment'', api = api_id mgmt_rest_api \<rparr>;
      deploymentStage = \<lparr>
        stage_id = ''ssl-cert-prod'',
        stageName = ''prod'',
        stage_deployment = deployment_id deployment,
        dataTraceEnabled = True,
        loggingLevel = INFO \<rparr>;
      (api_explprer_resource, mgmt_rest_api) =
        addResource (root mgmt_rest_api) ''api-explorer'' mgmt_rest_api;
      (proxy, mgmt_rest_api, apiDocFunction) =
        addProxy api_explprer_resource apiDocFunction True mgmt_rest_api;
      (mgmt_rest_api, apiDocFunction) =
        addMethod api_explprer_resource ''GET'' apiDocFunction True mgmt_rest_api;
      (delete_resource, mgmt_rest_api) =
        addResource (root mgmt_rest_api) ''delete-ssl-cert'' mgmt_rest_api;
      (mgmt_rest_api, deleteCertFunction) =
        addMethod delete_resource ''POST'' deleteCertFunction True mgmt_rest_api;
      (list_resource, mgmt_rest_api) =
        addResource (root mgmt_rest_api) ''list-ssl-cert'' mgmt_rest_api;
      (mgmt_rest_api, listCertFunction) =
        addMethod list_resource ''GET'' listCertFunction True mgmt_rest_api;
      s3URL =
        [Lit ''https://''] @ [Pseudo REGION] @ [Lit ''.console.amazonaws.cn/s3/buckets/''] @
        bucketName cert_bucket;
      certbot_lambda_fn =
        addEnvironment ''API_EXPLORER'' (invokeUrl @ [Lit ''/api-explorer/'']) certbot_lambda_fn
    in \<lparr>
      template_description = ''(SO8156-cn) - China CloudFront SSL Plugin'',
      parameters = [domainName, emailAddress, renewIntervalDays],
      parameter_groups =
        [[logicalId emailAddress, logicalId domainName, logicalId renewIntervalDays]],
      parameter_labels = [
        (''domainName'', ''Domain Name''),
        (''emailAddress'', ''Email''),
        (''renewIntervalDays'', ''SSL Renew Interval Days'')],
      cert_topic = cert_topic,
      cert_bucket = cert_bucket,
      certbot_lambda_fn = certbot_lambda_fn,
      cfn_created_rule = cfn_created_rule,
      scheduled_event_rule = scheduled_event_rule,
      mgmt_rest_api = mgmt_rest_api,
      apiDocFunction = apiDocFunction,
      deleteCertFunction = deleteCertFunction,
      listCertFunction = listCertFunction,
      deployment = deployment,
      deploymentStage = deploymentStage,
      outputs = [
        \<lparr> output_id = ''S3-Bucket-URL'',
          output_value = s3URL,
          output_description = ''Download SSL certification from S3 bucket'' \<rparr>,
        \<lparr> output_id = ''Management-Web-URL'',
          output_value = invokeUrl @ [Lit ''/api-explorer/''],
          output_description = ''For IAM SSL Certification Management API UI'' \<rparr>,
        \<lparr> output_id = ''Cloudfront-Console'',
          output_value = [Lit ''https://console.amazonaws.cn/cloudfront''],
          output_description = ''Check IAM SSL Certification and use it in CloudFront, please find doc on: https://docs.amazonaws.cn/AmazonCloudFront/latest/DeveloperGuide/cnames-and-https-procedures.html#cnames-and-https-updating-cloudfront'' \<rparr>] \<rparr>)"

section \<open>What the declared resources mean in a stack instance\<close>

subsection \<open>What a function is given\<close>

definition resolved_environment :: "stack_instance \<Rightarrow> LambdaFunction \<Rightarrow> (string \<times> string) list" where
  "resolved_environment d f = map (\<lambda>kv. (fst kv, resolve d (snd kv))) (fn_environment f)"

text \<open>
  The parameters whose values reach a function: those its environment reads, and those
  read by the input of a rule target that names the function.
\<close>

fun target_params :: "RuleTarget \<Rightarrow> string list" where
  "target_params t = (case target_event t of None \<Rightarrow> [] | Some e \<Rightarrow> params_of e)"

definition received_params :: "LambdaFunction \<Rightarrow> Rule list \<Rightarrow> string list" where
  "received_params f rs =
     concat (map (\<lambda>kv. params_of (snd kv)) (fn_environment f)) @
     concat (map target_params
       (filter (\<lambda>t. target_function t = function_id f) (concat (map targets rs))))"

subsection \<open>Events and schedules\<close>

text \<open>
  A stack status change event, as far as the pattern of the lifecycle rule reads it:
  \<^verbatim>\<open>source\<close>, \<^verbatim>\<open>detail-type\<close>, \<^verbatim>\<open>detail.stack-id\<close> and
  \<^verbatim>\<open>detail.status-details.status\<close>. A pattern matches an event when each of its
  fields lists the event's value.
\<close>

record StackEvent =
  event_source :: string
  event_detail_type :: string
  event_stack_id :: string
  event_status :: string

definition matches_pattern :: "stack_instance \<Rightarrow> EventPattern \<Rightarrow> StackEvent \<Rightarrow> bool" where
  "matches_pattern d p e =
     (event_source e \<in> set (map (resolve d) (source p)) \<and>
      event_detail_type e \<in> set (map (resolve d) (detailType p)) \<and>
      event_stack_id e \<in> set (map (resolve d) (detail_stack_id p)) \<and>
      event_status e \<in> set (map (resolve d) (detail_status p)))"

definition rule_fires :: "stack_instance \<Rightarrow> Rule \<Rightarrow> StackEvent \<Rightarrow> bool" where
  "rule_fires d r e =
     (enabled r \<and> (case eventPattern r of None \<Rightarrow> False | Some p \<Rightarrow> matches_pattern d p e))"

text \<open>The events of a history on which a rule fires, in order.\<close>

definition firings :: "stack_instance \<Rightarrow> Rule \<Rightarrow> StackEvent list \<Rightarrow> StackEvent list" where
  "firings d r es = filter (rule_fires d r) es"

fun in_seconds :: "int \<times> DurationUnit \<Rightarrow> int" where
  "in_seconds (n, Seconds) = n"
| "in_seconds (n, Days) = n * 86400"

text \<open>
  The schedule of a rule is a rate expression, of the text \<^verbatim>\<open>rate(value unit)\<close>.
  \<^verbatim>\<open>Schedule.rate\<close> writes it from the duration in one of two ways.

  For an amount that is a token (the value of a parameter) it cannot look at the
  amount: it takes the unit as the duration has it, which for \<^verbatim>\<open>Duration.days\<close> is
  the plural \<^verbatim>\<open>days\<close>, and refuses a unit that is none of minutes, hours and days.

  For an amount known at synthesis it refuses zero, writes whole days, else whole hours,
  else whole minutes, and takes the singular of the unit for the value 1.

  \<open>None\<close> is the refusal.
\<close>

fun unit_label :: "DurationUnit \<Rightarrow> string" where
  "unit_label Seconds = ''seconds''"
| "unit_label Days = ''days''"

record RateExpression =
  rate_value :: int
  rate_unit :: string

definition makeRate :: "int \<Rightarrow> string \<Rightarrow> RateExpression" where
  "makeRate interval singular =
     \<lparr>rate_value = interval,
      rate_unit = (if interval = 1 then singular else singular @ ''s'')\<rparr>"

fun rate_expression :: "stack_instance \<Rightarrow> Schedule \<Rightarrow> RateExpression option" where
  "rate_expression d (Rate (Duration (NumberParam p) u)) =
     (if unit_label u \<in> set [''minute'', ''minutes'', ''hour'', ''hours'', ''day'', ''days'']
      then (case parameter_value d p of
              NumberV n \<Rightarrow> Some \<lparr>rate_value = n, rate_unit = unit_label u\<rparr>
            | StringV s \<Rightarrow> None)
      else None)"
| "rate_expression d (Rate (Duration (Num n) u)) =
     (let secs = in_seconds (n, u) in
      if secs \<le> 0 then None
      else if secs mod 86400 = 0 then Some (makeRate (secs div 86400) ''day'')
      else if secs mod 3600 = 0 then Some (makeRate (secs div 3600) ''hour'')
      else if secs mod 60 = 0 then Some (makeRate (secs div 60) ''minute'')
      else None)"

definition rule_expression :: "stack_instance \<Rightarrow> Rule \<Rightarrow> RateExpression option" where
  "rule_expression d r = (case schedule r of None \<Rightarrow> None | Some s \<Rightarrow> rate_expression d s)"

definition expression_text :: "stack_instance \<Rightarrow> RateExpression \<Rightarrow> string" where
  "expression_text d e = ''rate('' @ number_text d (rate_value e) @ '' '' @ rate_unit e @ '')''"

text \<open>
  The event service takes a rate expression when its value is positive and its unit
  agrees with the value: the singular for the value 1, the plural for any other. A rule
  whose expression it does not take is not created, and so never fires.
\<close>

definition valid_rate_expression :: "RateExpression \<Rightarrow> bool" where
  "valid_rate_expression e =
     (0 < rate_value e \<and>
      (if rate_value e = 1 then rate_unit e \<in> set [''minute'', ''hour'', ''day'']
       else rate_unit e \<in> set [''minutes'', ''hours'', ''days'']))"

text \<open>A number in decimal digits, as a deployment has the value of a Number parameter.\<close>

fun decimal_nat :: "nat \<Rightarrow> string" where
  "decimal_nat n =
     (if n < 10 then [''0123456789'' ! n]
      else decimal_nat (n div 10) @ [''0123456789'' ! (n mod 10)])"

declare decimal_nat.simps [simp del]

definition decimal :: "int \<Rightarrow> string" where
  "decimal i = (if i < 0 then CHR ''-'' # decimal_nat (nat (- i)) else decimal_nat (nat i))"

definition timeout_seconds :: "stack_instance \<Rightarrow> LambdaFunction \<Rightarrow> int option" where
  "timeout_seconds d f =
     (case timeout (props f) of Duration t u \<Rightarrow>
        (case resolve_number d t of None \<Rightarrow> None | Some n \<Rightarrow> Some (in_seconds (n, u))))"

subsection \<open>Policies\<close>

text \<open>
  A resource of a policy statement is a pattern: \<open>*\<close> stands for any run of characters,
  \<open>?\<close> for any one character.
\<close>

fun glob :: "string \<Rightarrow> string \<Rightarrow> bool" where
  "glob [] s = (s = [])"
| "glob (p # ps) [] = (p = CHR ''*'' \<and> glob ps [])"
| "glob (p # ps) (c # cs) =
     (if p = CHR ''*'' then glob ps (c # cs) \<or> glob (p # ps) cs
      else (p = CHR ''?'' \<or> p = c) \<and> glob ps cs)"

text \<open>
  A statement grants an action on a resource when it allows, names the action and one
  of its resource patterns covers the resource.
\<close>

definition grants :: "stack_instance \<Rightarrow> PolicyStatement \<Rightarrow> string \<Rightarrow> string \<Rightarrow> bool" where
  "grants d st a arn =
     (effect st = ALLOW \<and> a \<in> set (actions st) \<and>
      list_ex (\<lambda>r. glob (resolve d r) arn) (resources st))"

text \<open>
  The managed policy \<^verbatim>\<open>service-role/AWSLambdaBasicExecutionRole\<close> lets a function
  write its logs: it allows the three actions below on every resource. No other managed
  policy is attached to a role of the stack.
\<close>

definition managed_policy_statements :: "string \<Rightarrow> PolicyStatement list" where
  "managed_policy_statements n =
     (if n = ''service-role/AWSLambdaBasicExecutionRole''
      then [\<lparr>resources = [[Lit ''*'']],
             actions = [''logs:CreateLogGroup'', ''logs:CreateLogStream'', ''logs:PutLogEvents''],
             effect = ALLOW\<rparr>]
      else [])"

text \<open>The statements of a function's role: its own policy and its managed policies.\<close>

definition role_statements :: "LambdaFunction \<Rightarrow> PolicyStatement list" where
  "role_statements f =
     role_policy f @ concat (map managed_policy_statements (managed_policies f))"

definition role_grants :: "stack_instance \<Rightarrow> LambdaFunction \<Rightarrow> string \<Rightarrow> string \<Rightarrow> bool" where
  "role_grants d f a arn = list_ex (\<lambda>st. grants d st a arn) (role_statements f)"

text \<open>A permission that the constructor adds by its own call of \<^verbatim>\<open>addPermission\<close>.\<close>

fun explicit_permission :: "Permission \<Rightarrow> bool" where
  "explicit_permission p = (case permission_id p of Named n \<Rightarrow> True | _ \<Rightarrow> False)"

definition all_functions :: "Stack \<Rightarrow> LambdaFunction list" where
  "all_functions S =
     [certbot_lambda_fn S, apiDocFunction S, deleteCertFunction S, listCertFunction S]"

subsection \<open>Routes of the API\<close>

fun integration_function :: "Integration \<Rightarrow> string option" where
  "integration_function (LambdaIntegration f proxy) = Some f"
| "integration_function MockIntegration = None"

subsection \<open>How a repetition cuts the text\<close>



subsection \<open>The domain list, in the words of the specification\<close>



subsection \<open>A concrete stack instance\<close>

text \<open>
  One deployment, for the concrete cases below: two domains, an operator address and an
  interval of 80 days; \<open>set_parameter\<close> gives another value to one parameter.
\<close>

definition example_instance :: stack_instance where
  "example_instance = \<lparr>
     parameter_value = (\<lambda>p.
       if p = ''domainName'' then StringV ''www.example.cn,example.cn''
       else if p = ''emailAddress'' then StringV ''ops@example.cn''
       else NumberV 80),
     pseudo_value = (\<lambda>x. case x of
         STACK_NAME \<Rightarrow> ''ssl-plugin''
       | STACK_ID \<Rightarrow> ''arn:aws-cn:cloudformation:cn-north-1:123456789012:stack/ssl-plugin/0a1b''
       | REGION \<Rightarrow> ''cn-north-1''
       | ACCOUNT_ID \<Rightarrow> ''123456789012''),
     attr_value = (\<lambda>r a. r @ ''.'' @ a),
     number_text = decimal \<rparr>"

definition set_parameter :: "string \<Rightarrow> pvalue \<Rightarrow> stack_instance \<Rightarrow> stack_instance" where
  "set_parameter p v d = d\<lparr>parameter_value := (parameter_value d)(p := v)\<rparr>"

section \<open>The constructs of the stack, evaluated\<close>

lemma logical_ids:
  "logicalId domainName = ''domainName''"
  "logicalId emailAddress = ''emailAddress''"
  "logicalId renewIntervalDays = ''renewIntervalDays''"
  by (simp_all add: domainName_def emailAddress_def renewIntervalDays_def)

text \<open>The stack that the constructor builds, with every construct in its last state.\<close>

lemma stack_evaluated:
  "ChinaCloudFrontSslPluginStack =
   \<lparr>template_description = ''(SO8156-cn) - China CloudFront SSL Plugin'',
      parameters = [domainName, emailAddress, renewIntervalDays],
      parameter_groups =
        [[''emailAddress'', ''domainName'', ''renewIntervalDays'']],
      parameter_labels =
        [(''domainName'', ''Domain Name''), (''emailAddress'', ''Email''),
         (''renewIntervalDays'', ''SSL Renew Interval Days'')],
      cert_topic =
        \<lparr>topic_id = ''Topic'',
           displayName = [Pseudo STACK_NAME, Lit ''-Issue-SSL-Notification''],
           subscriptions = [EmailSubscription [StringParam ''emailAddress'']]\<rparr>,
      cert_bucket = \<lparr>bucket_id = ''CertBucket'', removalPolicy = DESTROY\<rparr>,
      certbot_lambda_fn =
        \<lparr>function_id = ''CertBotFunction'',
           props =
             \<lparr>code = ''../lambda/CertBot/certbot'', runtime = PYTHON_3_10,
                handler = ''app.handler'',
                description = ''Core Function for issuing certificates'',
                environment =
                  [(''CERTBOT_BUCKET'', [Attr ''CertBucket'' ''bucketName'']),
                   (''DOMAINS_LIST'', [StringParam ''domainName'']),
                   (''DOMAINS_EMAIL'', [StringParam ''emailAddress'']),
                   (''STACK_NAME'', [Pseudo STACK_NAME]),
                   (''REGION'', [Pseudo REGION]),
                   (''TOPIC_ARN'', [Attr ''Topic'' ''topicArn'']),
                   (''MAX_DIST_ITEMS'', [Lit ''200'']),
                   (''DIST_PAGE_SIZE'', [Lit ''20''])],
                memorySize = Some 256, timeout = Duration (Num 900) Seconds\<rparr>,
           fn_environment =
             [(''CERTBOT_BUCKET'', [Attr ''CertBucket'' ''bucketName'']),
              (''DOMAINS_LIST'', [StringParam ''domainName'']),
              (''DOMAINS_EMAIL'', [StringParam ''emailAddress'']),
              (''STACK_NAME'', [Pseudo STACK_NAME]),
              (''REGION'', [Pseudo REGION]),
              (''TOPIC_ARN'', [Attr ''Topic'' ''topicArn'']),
              (''MAX_DIST_ITEMS'', [Lit ''200'']),
              (''DIST_PAGE_SIZE'', [Lit ''20'']),
              (''API_EXPLORER'',
               [Lit ''https://'', Attr ''SslCertManageAPI'' ''restApiId'',
                Lit ''.execute-api.'', Pseudo REGION,
                Lit ''.amazonaws.com.cn/prod'', Lit ''/api-explorer/''])],
           managed_policies = [''service-role/AWSLambdaBasicExecutionRole''],
           role_policy =
             [\<lparr>resources = [[Lit ''*'']],
                 actions =
                   [''cloudfront:GetDistribution'',
                    ''cloudfront:ListDistributions'',
                    ''cloudfront:UpdateDistribution'',
                    ''cloudfront:GetDistributionConfig'',
                    ''route53:GetChange'', ''iam:ListServerCertificates'',
                    ''route53:ListHostedZones''],
                 effect = ALLOW\<rparr>,
              \<lparr>resources =
                 [[Lit ''arn:aws-cn:iam::'', Pseudo ACCOUNT_ID,
                   Lit '':server-certificate/*''],
                  [Lit ''arn:aws-cn:route53:::hostedzone/*''],
                  [Attr ''CertBucket'' ''bucketArn''],
                  [Attr ''CertBucket'' ''bucketArn'', Lit ''/*''],
                  [Attr ''Topic'' ''topicArn'']],
                 actions =
                   [''iam:GetServerCertificate'',
                    ''iam:UpdateServerCertificate'',
                    ''iam:ListServerCertificateTags'',
                    ''iam:DeleteServerCertificate'',
                    ''iam:TagServerCertificate'',
                    ''route53:ChangeResourceRecordSets'',
                    ''iam:UntagServerCertificate'',
                    ''iam:UploadServerCertificate'', ''s3:ListBucket'',
                    ''s3:PutObject'', ''s3:GetObject'', ''sns:Publish''],
                 effect = ALLOW\<rparr>],
           permissions =
             [\<lparr>permission_id =
                 AllowEventRule ''CertCfnCreatedRule'' ''CertBotFunction'',
                 perm_action = ''lambda:InvokeFunction'',
                 principal = ''events.amazonaws.com'',
                 sourceArn = [Attr ''CertCfnCreatedRule'' ''ruleArn'']\<rparr>,
              \<lparr>permission_id = Named ''CertCfnCreatedEventInvokeLambda'',
                 perm_action = ''lambda:InvokeFunction'',
                 principal = ''events.amazonaws.com'',
                 sourceArn = [Attr ''CertCfnCreatedRule'' ''ruleArn'']\<rparr>,
              \<lparr>permission_id =
                 AllowEventRule ''CertScheduledRule'' ''CertBotFunction'',
                 perm_action = ''lambda:InvokeFunction'',
                 principal = ''events.amazonaws.com'',
                 sourceArn = [Attr ''CertScheduledRule'' ''ruleArn'']\<rparr>,
              \<lparr>permission_id = Named ''ScheduledEventsInvokeLambda'',
                 perm_action = ''lambda:InvokeFunction'',
                 principal = ''events.amazonaws.com'',
                 sourceArn = [Attr ''CertCfnCreatedRule'' ''ruleArn'']\<rparr>]\<rparr>,
      cfn_created_rule =
        \<lparr>rule_id = ''CertCfnCreatedRule'',
           rule_description =
             [Lit ''Trigger lambda function after stack created''],
           enabled = True,
           eventPattern =
             Some
              \<lparr>source = [[Lit ''aws.cloudformation'']],
                 detailType = [[Lit ''CloudFormation Stack Status Change'']],
                 detail_stack_id = [[Pseudo STACK_ID]],
                 detail_status =
                   [[Lit ''CREATE_COMPLETE''], [Lit ''UPDATE_COMPLETE'']]\<rparr>,
           schedule = None,
           targets =
             [\<lparr>target_function = ''CertBotFunction'', target_event = None\<rparr>]\<rparr>,
      scheduled_event_rule =
        \<lparr>rule_id = ''CertScheduledRule'',
           rule_description =
             [Lit ''Automatically trigger cert lambda function every '',
              NumberText (NumberParam ''renewIntervalDays''), Lit '' days''],
           enabled = True, eventPattern = None,
           schedule =
             Some (Rate (Duration (NumberParam ''renewIntervalDays'') Days)),
           targets =
             [\<lparr>target_function = ''CertBotFunction'', target_event = None\<rparr>]\<rparr>,
      mgmt_rest_api =
        \<lparr>api_id = ''SslCertManageAPI'',
           api_props =
             \<lparr>restApiName =
                [Pseudo STACK_NAME, Lit '': SSL Cert Management API''],
                api_description =
                  [Pseudo STACK_NAME, Lit '': SSL Cert Management API''],
                deploy = False, cloudWatchRole = True,
                defaultCorsPreflightOptions =
                  Some
                   \<lparr>allowHeaders =
                      [''Content-Type'', ''X-Amz-Date'', ''Authorization'',
                       ''X-Api-Key''],
                      allowMethods = [''POST'', ''OPTION''],
                      allowCredentials = True, allowOrigins = [''*'']\<rparr>,
                endpoint_types = [REGIONAL]\<rparr>,
           api_resources =
             [''/'', ''/api-explorer'', ''/api-explorer/{proxy+}'',
              ''/delete-ssl-cert'', ''/list-ssl-cert''],
           api_methods =
             [\<lparr>method_path = ''/'', httpMethod = ''OPTIONS'',
                 integration = MockIntegration\<rparr>,
              \<lparr>method_path = ''/api-explorer'', httpMethod = ''OPTIONS'',
                 integration = MockIntegration\<rparr>,
              \<lparr>method_path = ''/api-explorer/{proxy+}'',
                 httpMethod = ''OPTIONS'', integration = MockIntegration\<rparr>,
              \<lparr>method_path = ''/api-explorer/{proxy+}'', httpMethod = ''ANY'',
                 integration = LambdaIntegration ''APIExplorerFunction'' True\<rparr>,
              \<lparr>method_path = ''/api-explorer'', httpMethod = ''GET'',
                 integration = LambdaIntegration ''APIExplorerFunction'' True\<rparr>,
              \<lparr>method_path = ''/delete-ssl-cert'', httpMethod = ''OPTIONS'',
                 integration = MockIntegration\<rparr>,
              \<lparr>method_path = ''/delete-ssl-cert'', httpMethod = ''POST'',
                 integration = LambdaIntegration ''DeleteCertFunction'' True\<rparr>,
              \<lparr>method_path = ''/list-ssl-cert'', httpMethod = ''OPTIONS'',
                 integration = MockIntegration\<rparr>,
              \<lparr>method_path = ''/list-ssl-cert'', httpMethod = ''GET'',
                 integration = LambdaIntegration ''ListCertFunction'' True\<rparr>]\<rparr>,
      apiDocFunction =
        \<lparr>function_id = ''APIExplorerFunction'',
           props =
             \<lparr>code = ''../lambda/api-explorer'', runtime = NODEJS_18_X,
                handler = ''app.handler'',
                description = ''API Explorer for management certificates'',
                environment =
                  [(''SWAGGER_SPEC_URL'',
                    [Lit ''https://'', Attr ''SslCertManageAPI'' ''restApiId'',
                     Lit ''.execute-api.'', Pseudo REGION,
                     Lit ''.amazonaws.com.cn/prod''])],
                memorySize = None, timeout = Duration (Num 20) Seconds\<rparr>,
           fn_environment =
             [(''SWAGGER_SPEC_URL'',
               [Lit ''https://'', Attr ''SslCertManageAPI'' ''restApiId'',
                Lit ''.execute-api.'', Pseudo REGION,
                Lit ''.amazonaws.com.cn/prod''])],
           managed_policies = [''service-role/AWSLambdaBasicExecutionRole''],
           role_policy = [],
           permissions =
             [\<lparr>permission_id =
                 ApiPermission ''SslCertManageAPI'' ''ANY''
                  ''/api-explorer/{proxy+}'',
                 perm_action = ''lambda:InvokeFunction'',
                 principal = ''apigateway.amazonaws.com'',
                 sourceArn =
                   [Attr ''SslCertManageAPI''
                     ''methodArn ANY /api-explorer/{proxy+}'']\<rparr>,
              \<lparr>permission_id =
                 ApiPermissionTest ''SslCertManageAPI'' ''ANY''
                  ''/api-explorer/{proxy+}'',
                 perm_action = ''lambda:InvokeFunction'',
                 principal = ''apigateway.amazonaws.com'',
                 sourceArn =
                   [Attr ''SslCertManageAPI''
                     ''testMethodArn ANY /api-explorer/{proxy+}'']\<rparr>,
              \<lparr>permission_id =
                 ApiPermission ''SslCertManageAPI'' ''GET'' ''/api-explorer'',
                 perm_action = ''lambda:InvokeFunction'',
                 principal = ''apigateway.amazonaws.com'',
                 sourceArn =
                   [Attr ''SslCertManageAPI''
                     ''methodArn GET /api-explorer'']\<rparr>,
              \<lparr>permission_id =
                 ApiPermissionTest ''SslCertManageAPI'' ''GET''
                  ''/api-explorer'',
                 perm_action = ''lambda:InvokeFunction'',
                 principal = ''apigateway.amazonaws.com'',
                 sourceArn =
                   [Attr ''SslCertManageAPI''
                     ''testMethodArn GET /api-explorer'']\<rparr>]\<rparr>,
      deleteCertFunction =
        \<lparr>function_id = ''DeleteCertFunction'',
           props =
             \<lparr>code = ''../lambda/ManageCert/DeleteCert'', runtime = PYTHON_3_9,
                handler = ''app.handler'',
                description = ''API for delete IAM certificates'',
                environment = [], memorySize = None,
                timeout = Duration (Num 20) Seconds\<rparr>,
           fn_environment = [],
           managed_policies = [''service-role/AWSLambdaBasicExecutionRole''],
           role_policy =
             [\<lparr>resources = [[Lit ''*'']],
                 actions = [''iam:DeleteServerCertificate''], effect = ALLOW\<rparr>],
           permissions =
             [\<lparr>permission_id =
                 ApiPermission ''SslCertManageAPI'' ''POST''
                  ''/delete-ssl-cert'',
                 perm_action = ''lambda:InvokeFunction'',
                 principal = ''apigateway.amazonaws.com'',
                 sourceArn =
                   [Attr ''SslCertManageAPI''
                     ''methodArn POST /delete-ssl-cert'']\<rparr>,
              \<lparr>permission_id =
                 ApiPermissionTest ''SslCertManageAPI'' ''POST''
                  ''/delete-ssl-cert'',
                 perm_action = ''lambda:InvokeFunction'',
                 principal = ''apigateway.amazonaws.com'',
                 sourceArn =
                   [Attr ''SslCertManageAPI''
                     ''testMethodArn POST /delete-ssl-cert'']\<rparr>]\<rparr>,
      listCertFunction =
        \<lparr>function_id = ''ListCertFunction'',
           props =
             \<lparr>code = ''../lambda/ManageCert/ListCert'', runtime = PYTHON_3_9,
                handler = ''app.handler'',
                description = ''API for list IAM certificates'',
                environment = [], memorySize = None,
                timeout = Duration (Num 20) Seconds\<rparr>,
           fn_environment = [],
           managed_policies = [''service-role/AWSLambdaBasicExecutionRole''],
           role_policy =
             [\<lparr>resources = [[Lit ''*'']],
                 actions = [''iam:ListServerCertificates''], effect = ALLOW\<rparr>],
           permissions =
             [\<lparr>permission_id =
                 ApiPermission ''SslCertManageAPI'' ''GET'' ''/list-ssl-cert'',
                 perm_action = ''lambda:InvokeFunction'',
                 principal = ''apigateway.amazonaws.com'',
                 sourceArn =
                   [Attr ''SslCertManageAPI''
                     ''methodArn GET /list-ssl-cert'']\<rparr>,
              \<lparr>permission_id =
                 ApiPermissionTest ''SslCertManageAPI'' ''GET''
                  ''/list-ssl-cert'',
                 perm_action = ''lambda:InvokeFunction'',
                 principal = ''apigateway.amazonaws.com'',
                 sourceArn =
                   [Attr ''SslCertManageAPI''
                     ''testMethodArn GET /list-ssl-cert'']\<rparr>]\<rparr>,
      deployment =
        \<lparr>deployment_id = ''mgmt_deployment'', api = ''SslCertManageAPI''\<rparr>,
      deploymentStage =
        \<lparr>stage_id = ''ssl-cert-prod'', stageName = ''prod'',
           stage_deployment = ''mgmt_deployment'', dataTraceEnabled = True,
           loggingLevel = INFO\<rparr>,
      outputs =
        [\<lparr>output_id = ''S3-Bucket-URL'',
            output_value =
              [Lit ''https://'', Pseudo REGION,
               Lit ''.console.amazonaws.cn/s3/buckets/'',
               Attr ''CertBucket'' ''bucketName''],
            output_description =
              ''Download SSL certification from S3 bucket''\<rparr>,
         \<lparr>output_id = ''Management-Web-URL'',
            output_value =
              [Lit ''https://'', Attr ''SslCertManageAPI'' ''restApiId'',
               Lit ''.execute-api.'', Pseudo REGION,
               Lit ''.amazonaws.com.cn/prod'', Lit ''/api-explorer/''],
            output_description =
              ''For IAM SSL Certification Management API UI''\<rparr>,
         \<lparr>output_id = ''Cloudfront-Console'',
            output_value = [Lit ''https://console.amazonaws.cn/cloudfront''],
            output_description =
              ''Check IAM SSL Certification and use it in CloudFront, please find doc on: https://docs.amazonaws.cn/AmazonCloudFront/latest/DeveloperGuide/cnames-and-https-procedures.html#cnames-and-https-updating-cloudfront''\<rparr>]\<rparr>"
  by code_simp

lemma stack_parameters:
  "parameters ChinaCloudFrontSslPluginStack = [domainName, emailAddress, renewIntervalDays]"
  by (simp add: stack_evaluated)

lemma function_ids:
  "function_id (certbot_lambda_fn ChinaCloudFrontSslPluginStack) = ''CertBotFunction''"
  "function_id (apiDocFunction ChinaCloudFrontSslPluginStack) = ''APIExplorerFunction''"
  "function_id (deleteCertFunction ChinaCloudFrontSslPluginStack) = ''DeleteCertFunction''"
  "function_id (listCertFunction ChinaCloudFrontSslPluginStack) = ''ListCertFunction''"
  by (simp_all add: stack_evaluated)

lemma certbot_environment:
  "fn_environment (certbot_lambda_fn ChinaCloudFrontSslPluginStack) =
     [(''CERTBOT_BUCKET'', [Attr ''CertBucket'' ''bucketName'']),
      (''DOMAINS_LIST'', [StringParam ''domainName'']),
      (''DOMAINS_EMAIL'', [StringParam ''emailAddress'']),
      (''STACK_NAME'', [Pseudo STACK_NAME]),
      (''REGION'', [Pseudo REGION]),
      (''TOPIC_ARN'', [Attr ''Topic'' ''topicArn'']),
      (''MAX_DIST_ITEMS'', [Lit ''200'']),
      (''DIST_PAGE_SIZE'', [Lit ''20'']),
      (''API_EXPLORER'',
       [Lit ''https://'', Attr ''SslCertManageAPI'' ''restApiId'', Lit ''.execute-api.'',
        Pseudo REGION, Lit ''.amazonaws.com.cn/prod'', Lit ''/api-explorer/''])]"
  by (simp add: stack_evaluated)

lemma certbot_timeout:
  "timeout (props (certbot_lambda_fn ChinaCloudFrontSslPluginStack)) = Duration (Num 900) Seconds"
  by (simp add: stack_evaluated)

lemma certbot_permissions:
  "permissions (certbot_lambda_fn ChinaCloudFrontSslPluginStack) =
     [\<lparr>permission_id = AllowEventRule ''CertCfnCreatedRule'' ''CertBotFunction'',
       perm_action = ''lambda:InvokeFunction'',
       principal = ''events.amazonaws.com'',
       sourceArn = [Attr ''CertCfnCreatedRule'' ''ruleArn'']\<rparr>,
      \<lparr>permission_id = Named ''CertCfnCreatedEventInvokeLambda'',
       perm_action = ''lambda:InvokeFunction'',
       principal = ''events.amazonaws.com'',
       sourceArn = [Attr ''CertCfnCreatedRule'' ''ruleArn'']\<rparr>,
      \<lparr>permission_id = AllowEventRule ''CertScheduledRule'' ''CertBotFunction'',
       perm_action = ''lambda:InvokeFunction'',
       principal = ''events.amazonaws.com'',
       sourceArn = [Attr ''CertScheduledRule'' ''ruleArn'']\<rparr>,
      \<lparr>permission_id = Named ''ScheduledEventsInvokeLambda'',
       perm_action = ''lambda:InvokeFunction'',
       principal = ''events.amazonaws.com'',
       sourceArn = [Attr ''CertCfnCreatedRule'' ''ruleArn'']\<rparr>]"
  by (simp add: stack_evaluated)

text \<open>
  The permissions of the three other functions all come from the methods of the API:
  none is explicit, all are for \<^verbatim>\<open>apigateway.amazonaws.com\<close>, and the source of each
  is an ARN of a method of the API.
\<close>

lemma other_permissions:
  "map permission_id (permissions (apiDocFunction ChinaCloudFrontSslPluginStack)) =
     [ApiPermission ''SslCertManageAPI'' ''ANY'' ''/api-explorer/{proxy+}'',
      ApiPermissionTest ''SslCertManageAPI'' ''ANY'' ''/api-explorer/{proxy+}'',
      ApiPermission ''SslCertManageAPI'' ''GET'' ''/api-explorer'',
      ApiPermissionTest ''SslCertManageAPI'' ''GET'' ''/api-explorer'']"
  "map permission_id (permissions (deleteCertFunction ChinaCloudFrontSslPluginStack)) =
     [ApiPermission ''SslCertManageAPI'' ''POST'' ''/delete-ssl-cert'',
      ApiPermissionTest ''SslCertManageAPI'' ''POST'' ''/delete-ssl-cert'']"
  "map permission_id (permissions (listCertFunction ChinaCloudFrontSslPluginStack)) =
     [ApiPermission ''SslCertManageAPI'' ''GET'' ''/list-ssl-cert'',
      ApiPermissionTest ''SslCertManageAPI'' ''GET'' ''/list-ssl-cert'']"
  "map principal (permissions (apiDocFunction ChinaCloudFrontSslPluginStack) @
      permissions (deleteCertFunction ChinaCloudFrontSslPluginStack) @
      permissions (listCertFunction ChinaCloudFrontSslPluginStack)) =
     replicate 8 ''apigateway.amazonaws.com''"
  "list_all (\<lambda>p. \<exists>a. sourceArn p = [Attr ''SslCertManageAPI'' a])
     (permissions (apiDocFunction ChinaCloudFrontSslPluginStack) @
      permissions (deleteCertFunction ChinaCloudFrontSslPluginStack) @
      permissions (listCertFunction ChinaCloudFrontSslPluginStack))"
  by (simp_all add: stack_evaluated eval_nat_numeral)

lemma cfn_created_rule_value:
  "cfn_created_rule ChinaCloudFrontSslPluginStack =
     \<lparr>rule_id = ''CertCfnCreatedRule'',
      rule_description = [Lit ''Trigger lambda function after stack created''],
      enabled = True,
      eventPattern = Some
        \<lparr>source = [[Lit ''aws.cloudformation'']],
         detailType = [[Lit ''CloudFormation Stack Status Change'']],
         detail_stack_id = [[Pseudo STACK_ID]],
         detail_status = [[Lit ''CREATE_COMPLETE''], [Lit ''UPDATE_COMPLETE'']]\<rparr>,
      schedule = None,
      targets = [\<lparr>target_function = ''CertBotFunction'', target_event = None\<rparr>]\<rparr>"
  by (simp add: stack_evaluated)

lemma scheduled_event_rule_value:
  "scheduled_event_rule ChinaCloudFrontSslPluginStack =
     \<lparr>rule_id = ''CertScheduledRule'',
      rule_description =
        [Lit ''Automatically trigger cert lambda function every '',
         NumberText (NumberParam ''renewIntervalDays''), Lit '' days''],
      enabled = True,
      eventPattern = None,
      schedule = Some (Rate (Duration (NumberParam ''renewIntervalDays'') Days)),
      targets = [\<lparr>target_function = ''CertBotFunction'', target_event = None\<rparr>]\<rparr>"
  by (simp add: stack_evaluated)

lemma mgmt_api_resources:
  "api_resources (mgmt_rest_api ChinaCloudFrontSslPluginStack) =
     [''/'', ''/api-explorer'', ''/api-explorer/{proxy+}'', ''/delete-ssl-cert'',
      ''/list-ssl-cert'']"
  by (simp add: stack_evaluated)

lemma mgmt_api_methods:
  "api_methods (mgmt_rest_api ChinaCloudFrontSslPluginStack) =
     [\<lparr>method_path = ''/'', httpMethod = ''OPTIONS'', integration = MockIntegration\<rparr>,
      \<lparr>method_path = ''/api-explorer'', httpMethod = ''OPTIONS'',
       integration = MockIntegration\<rparr>,
      \<lparr>method_path = ''/api-explorer/{proxy+}'', httpMethod = ''OPTIONS'',
       integration = MockIntegration\<rparr>,
      \<lparr>method_path = ''/api-explorer/{proxy+}'', httpMethod = ''ANY'',
       integration = LambdaIntegration ''APIExplorerFunction'' True\<rparr>,
      \<lparr>method_path = ''/api-explorer'', httpMethod = ''GET'',
       integration = LambdaIntegration ''APIExplorerFunction'' True\<rparr>,
      \<lparr>method_path = ''/delete-ssl-cert'', httpMethod = ''OPTIONS'',
       integration = MockIntegration\<rparr>,
      \<lparr>method_path = ''/delete-ssl-cert'', httpMethod = ''POST'',
       integration = LambdaIntegration ''DeleteCertFunction'' True\<rparr>,
      \<lparr>method_path = ''/list-ssl-cert'', httpMethod = ''OPTIONS'',
       integration = MockIntegration\<rparr>,
      \<lparr>method_path = ''/list-ssl-cert'', httpMethod = ''GET'',
       integration = LambdaIntegration ''ListCertFunction'' True\<rparr>]"
  by (simp add: stack_evaluated)

lemma mgmt_role_policies:
  "role_policy (deleteCertFunction ChinaCloudFrontSslPluginStack) =
     [\<lparr>resources = [[Lit ''*'']], actions = [''iam:DeleteServerCertificate''], effect = ALLOW\<rparr>]"
  "role_policy (listCertFunction ChinaCloudFrontSslPluginStack) =
     [\<lparr>resources = [[Lit ''*'']], actions = [''iam:ListServerCertificates''], effect = ALLOW\<rparr>]"
  by (simp_all add: stack_evaluated)


section \<open>Lemmas on tokens, patterns and policies\<close>

text \<open>A parameter that a token string does not read does not change what it resolves to.\<close>

lemma resolve_piece_set_parameter:
  "p \<notin> set (piece_params x) \<Longrightarrow> resolve_piece (set_parameter p v d) x = resolve_piece d x"
  by (cases x rule: piece_params.cases)
    (auto simp: set_parameter_def split: pvalue.splits option.splits)

lemma resolve_set_parameter:
  "p \<notin> set (params_of t) \<Longrightarrow> resolve (set_parameter p v d) t = resolve d t"
  by (induction t) (simp_all add: resolve_def params_of_def resolve_piece_set_parameter)

lemma resolved_environment_set_parameter:
  assumes "p \<notin> set (concat (map (\<lambda>kv. params_of (snd kv)) (fn_environment f)))"
  shows "resolved_environment (set_parameter p v d) f = resolved_environment d f"
  using assms unfolding resolved_environment_def
  by (induction "fn_environment f" arbitrary: f) (auto simp: resolve_set_parameter)

lemma certbot_received_params:
  "received_params (certbot_lambda_fn ChinaCloudFrontSslPluginStack)
     [cfn_created_rule ChinaCloudFrontSslPluginStack,
      scheduled_event_rule ChinaCloudFrontSslPluginStack] = [''domainName'', ''emailAddress'']"
  by (simp add: received_params_def certbot_environment cfn_created_rule_value
      scheduled_event_rule_value function_ids params_of_def)

text \<open>The resource pattern \<open>*\<close> covers every resource.\<close>

lemma glob_star: "glob ''*'' s"
  by (induction s) simp_all








lemma example_email_matches: "full_match emailAddress_pattern ''ops@example.cn''"
  by code_simp

lemma example_instance_accepted:
  "accepts_instance (parameters ChinaCloudFrontSslPluginStack) example_instance"
  by (simp add: accepts_instance_def stack_parameters example_instance_def
      domainName_def emailAddress_def renewIntervalDays_def example_email_matches)

text \<open>
  The expression of the schedule rule has the value of \<^verbatim>\<open>renewIntervalDays\<close> and the
  unit \<^verbatim>\<open>days\<close>, for every value; with that unit it is valid from the value 2 on.
\<close>

lemma scheduled_rule_expression:
  "parameter_value d ''renewIntervalDays'' = NumberV n \<Longrightarrow>
     rule_expression d (scheduled_event_rule ChinaCloudFrontSslPluginStack) =
       Some \<lparr>rate_value = n, rate_unit = ''days''\<rparr>"
  by (simp add: rule_expression_def scheduled_event_rule_value)

lemma days_expression_valid:
  "valid_rate_expression \<lparr>rate_value = n, rate_unit = ''days''\<rparr> = (2 \<le> n)"
  by (auto simp: valid_rate_expression_def)

lemma schedule_rate_from_two:
  assumes "accepts_value renewIntervalDays (parameter_value d ''renewIntervalDays'')"
    and "parameter_value d ''renewIntervalDays'' \<noteq> NumberV 1"
  shows "\<exists>n. parameter_value d ''renewIntervalDays'' = NumberV n \<and> 2 \<le> n \<and> n \<le> 89 \<and>
           rule_expression d (scheduled_event_rule ChinaCloudFrontSslPluginStack) =
             Some \<lparr>rate_value = n, rate_unit = ''days''\<rparr> \<and>
           valid_rate_expression \<lparr>rate_value = n, rate_unit = ''days''\<rparr>"
proof (cases "parameter_value d ''renewIntervalDays''")
  case (StringV s)
  with assms(1) show ?thesis by (simp add: renewIntervalDays_def)
next
  case (NumberV n)
  with assms have "2 \<le> n \<and> n \<le> 89" by (simp add: renewIntervalDays_def)
  with NumberV scheduled_rule_expression [OF NumberV] show ?thesis
    by (simp add: days_expression_valid)
qed

lemma decimal_one: "decimal 1 = ''1''"
  by code_simp

section \<open>The claims\<close>

subsection \<open>C1: what the issuance function is given\<close>

text \<open>
  C1 says that the certificate-issuance function receives the value of
  \<^verbatim>\<open>renewIntervalDays\<close>. It does not. No environment variable of the function and no
  input of a rule target reads that parameter, and two stack instances that differ only
  in the interval (1 day, 89 days) give the function the same environment.
\<close>

theorem C1_counterexample:
  "''renewIntervalDays'' \<notin> set (received_params (certbot_lambda_fn ChinaCloudFrontSslPluginStack)
       [cfn_created_rule ChinaCloudFrontSslPluginStack,
        scheduled_event_rule ChinaCloudFrontSslPluginStack]) \<and>
   resolved_environment (set_parameter ''renewIntervalDays'' (NumberV 1) example_instance)
       (certbot_lambda_fn ChinaCloudFrontSslPluginStack) =
   resolved_environment (set_parameter ''renewIntervalDays'' (NumberV 89) example_instance)
       (certbot_lambda_fn ChinaCloudFrontSslPluginStack)"
  by (simp add: certbot_received_params resolved_environment_def certbot_environment
      resolve_def set_parameter_def example_instance_def)

text \<open>
  C1, amended: in every stack instance the issuance function is given the domain list
  (\<^verbatim>\<open>DOMAINS_LIST\<close>) and the notification address (\<^verbatim>\<open>DOMAINS_EMAIL\<close>) in its
  environment; these two are the only parameters that reach it, and its environment
  stays the same whatever the value of \<^verbatim>\<open>renewIntervalDays\<close>.
\<close>

theorem C1_function_input:
  assumes "parameter_value d ''domainName'' = StringV dl"
    and "parameter_value d ''emailAddress'' = StringV em"
  shows "map_of (resolved_environment d (certbot_lambda_fn ChinaCloudFrontSslPluginStack))
           ''DOMAINS_LIST'' = Some dl \<and>
         map_of (resolved_environment d (certbot_lambda_fn ChinaCloudFrontSslPluginStack))
           ''DOMAINS_EMAIL'' = Some em \<and>
         received_params (certbot_lambda_fn ChinaCloudFrontSslPluginStack)
           [cfn_created_rule ChinaCloudFrontSslPluginStack,
            scheduled_event_rule ChinaCloudFrontSslPluginStack] =
           [''domainName'', ''emailAddress''] \<and>
         resolved_environment (set_parameter ''renewIntervalDays'' v d)
           (certbot_lambda_fn ChinaCloudFrontSslPluginStack) =
         resolved_environment d (certbot_lambda_fn ChinaCloudFrontSslPluginStack)"
proof -
  have env: "''renewIntervalDays'' \<notin> set (concat (map (\<lambda>kv. params_of (snd kv))
      (fn_environment (certbot_lambda_fn ChinaCloudFrontSslPluginStack))))"
    by (simp add: certbot_environment params_of_def)
  have "map_of (resolved_environment d (certbot_lambda_fn ChinaCloudFrontSslPluginStack))
      ''DOMAINS_LIST'' = Some dl"
    using assms(1) by (simp add: resolved_environment_def certbot_environment resolve_def)
  moreover have "map_of (resolved_environment d (certbot_lambda_fn ChinaCloudFrontSslPluginStack))
      ''DOMAINS_EMAIL'' = Some em"
    using assms(2) by (simp add: resolved_environment_def certbot_environment resolve_def)
  ultimately show ?thesis
    using certbot_received_params resolved_environment_set_parameter [OF env] by simp
qed

theorem C1_function_input_witness:
  "map_of (resolved_environment example_instance (certbot_lambda_fn ChinaCloudFrontSslPluginStack))
     ''DOMAINS_LIST'' = Some ''www.example.cn,example.cn'' \<and>
   map_of (resolved_environment example_instance (certbot_lambda_fn ChinaCloudFrontSslPluginStack))
     ''DOMAINS_EMAIL'' = Some ''ops@example.cn''"
proof -
  have a: "parameter_value example_instance ''domainName'' = StringV ''www.example.cn,example.cn''"
    by (simp add: example_instance_def)
  have b: "parameter_value example_instance ''emailAddress'' = StringV ''ops@example.cn''"
    by (simp add: example_instance_def)
  show ?thesis using C1_function_input [OF a b] by simp
qed

subsection \<open>C2: the bounds of the renew interval\<close>

text \<open>
  C2: the declaration of \<^verbatim>\<open>renewIntervalDays\<close> accepts a value exactly when it is a
  number \<open>n\<close> with \<open>1 \<le> n \<le> 89\<close>, both bounds included; and a stack instance is
  accepted only when its interval passes this check, which is made on the parameter
  values of the instance.
\<close>

theorem C2_renew_interval_bounds:
  "(accepts_value renewIntervalDays v = (\<exists>n. v = NumberV n \<and> 1 \<le> n \<and> n \<le> 89)) \<and>
   (accepts_instance (parameters ChinaCloudFrontSslPluginStack) d \<longrightarrow>
      accepts_value renewIntervalDays (parameter_value d ''renewIntervalDays''))"
proof -
  have "accepts_value renewIntervalDays v = (\<exists>n. v = NumberV n \<and> 1 \<le> n \<and> n \<le> 89)"
    by (cases v) (simp_all add: renewIntervalDays_def)
  moreover have "logicalId renewIntervalDays = ''renewIntervalDays''"
    by (simp add: renewIntervalDays_def)
  ultimately show ?thesis
    by (simp add: accepts_instance_def stack_parameters)
qed

theorem C2_renew_interval_bounds_witness:
  "accepts_value renewIntervalDays (NumberV 1) \<and> accepts_value renewIntervalDays (NumberV 89) \<and>
   \<not> accepts_value renewIntervalDays (NumberV 0) \<and> \<not> accepts_value renewIntervalDays (NumberV 90) \<and>
   \<not> accepts_value renewIntervalDays (StringV ''80'') \<and>
   accepts_value renewIntervalDays (parameter_value example_instance ''renewIntervalDays'')"
  using C2_renew_interval_bounds [of "NumberV 1"] C2_renew_interval_bounds [of "NumberV 89"]
    C2_renew_interval_bounds [of "NumberV 0"] C2_renew_interval_bounds [of "NumberV 90"]
    C2_renew_interval_bounds [of "StringV ''80''" example_instance] example_instance_accepted
  by simp

subsection \<open>C3: when the lifecycle rule fires\<close>

text \<open>
  C3 says that the lifecycle rule fires once, after the first provisioning, and matches
  nothing else. The pattern of the rule lists the status \<^verbatim>\<open>UPDATE_COMPLETE\<close> beside
  \<^verbatim>\<open>CREATE_COMPLETE\<close>: the rule fires on the event of a completed update, and on a
  history of a creation followed by an update it fires twice.
\<close>

theorem C3_counterexample:
  "rule_fires example_instance (cfn_created_rule ChinaCloudFrontSslPluginStack)
     \<lparr>event_source = ''aws.cloudformation'',
      event_detail_type = ''CloudFormation Stack Status Change'',
      event_stack_id = ''arn:aws-cn:cloudformation:cn-north-1:123456789012:stack/ssl-plugin/0a1b'',
      event_status = ''UPDATE_COMPLETE''\<rparr> \<and>
   length (firings example_instance (cfn_created_rule ChinaCloudFrontSslPluginStack)
     [\<lparr>event_source = ''aws.cloudformation'',
       event_detail_type = ''CloudFormation Stack Status Change'',
       event_stack_id = ''arn:aws-cn:cloudformation:cn-north-1:123456789012:stack/ssl-plugin/0a1b'',
       event_status = ''CREATE_COMPLETE''\<rparr>,
      \<lparr>event_source = ''aws.cloudformation'',
       event_detail_type = ''CloudFormation Stack Status Change'',
       event_stack_id = ''arn:aws-cn:cloudformation:cn-north-1:123456789012:stack/ssl-plugin/0a1b'',
       event_status = ''UPDATE_IN_PROGRESS''\<rparr>,
      \<lparr>event_source = ''aws.cloudformation'',
       event_detail_type = ''CloudFormation Stack Status Change'',
       event_stack_id = ''arn:aws-cn:cloudformation:cn-north-1:123456789012:stack/ssl-plugin/0a1b'',
       event_status = ''UPDATE_COMPLETE''\<rparr>]) = 2"
  by (simp add: firings_def rule_fires_def matches_pattern_def cfn_created_rule_value
      resolve_def example_instance_def)

text \<open>
  C3, amended: the lifecycle rule fires on exactly the stack status change events of
  its own stack whose status is \<^verbatim>\<open>CREATE_COMPLETE\<close> or \<^verbatim>\<open>UPDATE_COMPLETE\<close>: after
  the first provisioning and after every completed update of the stack, and on no
  other event.
\<close>

theorem C3_lifecycle_rule_fires:
  "rule_fires d (cfn_created_rule ChinaCloudFrontSslPluginStack) e =
     (event_source e = ''aws.cloudformation'' \<and>
      event_detail_type e = ''CloudFormation Stack Status Change'' \<and>
      event_stack_id e = pseudo_value d STACK_ID \<and>
      (event_status e = ''CREATE_COMPLETE'' \<or> event_status e = ''UPDATE_COMPLETE''))"
  by (simp add: rule_fires_def matches_pattern_def cfn_created_rule_value resolve_def)

subsection \<open>C4: the rate of the schedule rule\<close>

text \<open>
  C4 says that the schedule rule fires the issuance function every \<open>N\<close> days for every
  value \<open>N\<close> of \<^verbatim>\<open>renewIntervalDays\<close> in range. The value 1 is in range, and the
  constructor writes the expression of the rule with the unit \<^verbatim>\<open>days\<close> whatever the
  value: for the value 1 the expression is \<^verbatim>\<open>rate(1 days)\<close>, which is not a valid rate
  expression, so the rule that is to fire the function is not created. (From 2 to 89
  the expression is valid and follows the parameter: \<open>schedule_rate_from_two\<close>.)
\<close>

theorem C4_rate_expression_at_one:
  "accepts_value renewIntervalDays (NumberV 1) \<and>
   rule_expression (set_parameter ''renewIntervalDays'' (NumberV 1) example_instance)
     (scheduled_event_rule ChinaCloudFrontSslPluginStack) =
     Some \<lparr>rate_value = 1, rate_unit = ''days''\<rparr> \<and>
   expression_text (set_parameter ''renewIntervalDays'' (NumberV 1) example_instance)
     \<lparr>rate_value = 1, rate_unit = ''days''\<rparr> = ''rate(1 days)'' \<and>
   \<not> valid_rate_expression \<lparr>rate_value = 1, rate_unit = ''days''\<rparr> \<and>
   map target_function (targets (scheduled_event_rule ChinaCloudFrontSslPluginStack)) =
     [function_id (certbot_lambda_fn ChinaCloudFrontSslPluginStack)]"
proof -
  have a: "accepts_value renewIntervalDays (NumberV 1)"
    by (simp add: renewIntervalDays_def)
  have p: "parameter_value (set_parameter ''renewIntervalDays'' (NumberV 1) example_instance)
      ''renewIntervalDays'' = NumberV 1"
    by (simp add: set_parameter_def)
  have t: "expression_text (set_parameter ''renewIntervalDays'' (NumberV 1) example_instance)
      \<lparr>rate_value = 1, rate_unit = ''days''\<rparr> = ''rate(1 days)''"
    by (simp add: expression_text_def set_parameter_def example_instance_def decimal_one)
  have v: "\<not> valid_rate_expression \<lparr>rate_value = 1, rate_unit = ''days''\<rparr>"
    by (simp add: days_expression_valid)
  have g: "map target_function (targets (scheduled_event_rule ChinaCloudFrontSslPluginStack)) =
      [function_id (certbot_lambda_fn ChinaCloudFrontSslPluginStack)]"
    by (simp add: scheduled_event_rule_value function_ids)
  from a scheduled_rule_expression [OF p] t v g show ?thesis by (intro conjI)
qed

subsection \<open>C5: the deadline of a run and the bounds of the enumeration\<close>

text \<open>
  C5: the timeout of the issuance function is 900 seconds, that is 15 minutes, and in
  every stack instance its environment carries \<^verbatim>\<open>MAX_DIST_ITEMS\<close> = 200 and
  \<^verbatim>\<open>DIST_PAGE_SIZE\<close> = 20.
\<close>

theorem C5_deadline_and_pagination:
  "timeout (props (certbot_lambda_fn ChinaCloudFrontSslPluginStack)) = Duration_seconds 900 \<and>
   timeout_seconds d (certbot_lambda_fn ChinaCloudFrontSslPluginStack) = Some (15 * 60) \<and>
   map_of (resolved_environment d (certbot_lambda_fn ChinaCloudFrontSslPluginStack))
     ''MAX_DIST_ITEMS'' = Some ''200'' \<and>
   map_of (resolved_environment d (certbot_lambda_fn ChinaCloudFrontSslPluginStack))
     ''DIST_PAGE_SIZE'' = Some ''20''"
  by (simp add: certbot_timeout Duration_seconds_def resolved_environment_def
      certbot_environment resolve_def timeout_seconds_def)

subsection \<open>C6: the routes of the management API\<close>

text \<open>
  C6: the management API has five resources, and each has its preflight method
  (\<^verbatim>\<open>OPTIONS\<close>, on a mock). Of the methods that are integrated with a function, two
  belong to the API explorer; the others are exactly two: \<^verbatim>\<open>POST\<close> on the resource
  \<^verbatim>\<open>/delete-ssl-cert\<close>, integrated with the function that deletes a certificate, and
  \<^verbatim>\<open>GET\<close> on the resource \<^verbatim>\<open>/list-ssl-cert\<close>, integrated with the function that
  lists the certificates.
\<close>

theorem C6_management_routes:
  "api_resources (mgmt_rest_api ChinaCloudFrontSslPluginStack) =
     [''/'', ''/api-explorer'', ''/api-explorer/{proxy+}'', ''/delete-ssl-cert'',
      ''/list-ssl-cert''] \<and>
   filter (\<lambda>m. integration_function (integration m) \<noteq> None \<and>
                integration_function (integration m) \<noteq>
                  Some (function_id (apiDocFunction ChinaCloudFrontSslPluginStack)))
     (api_methods (mgmt_rest_api ChinaCloudFrontSslPluginStack)) =
     [\<lparr>method_path = ''/delete-ssl-cert'', httpMethod = ''POST'',
       integration = new_LambdaIntegration (deleteCertFunction ChinaCloudFrontSslPluginStack) True\<rparr>,
      \<lparr>method_path = ''/list-ssl-cert'', httpMethod = ''GET'',
       integration = new_LambdaIntegration (listCertFunction ChinaCloudFrontSslPluginStack) True\<rparr>] \<and>
   map (\<lambda>m. (method_path m, httpMethod m))
     (filter (\<lambda>m. integration_function (integration m) =
                Some (function_id (apiDocFunction ChinaCloudFrontSslPluginStack)))
       (api_methods (mgmt_rest_api ChinaCloudFrontSslPluginStack))) =
     [(''/api-explorer/{proxy+}'', ''ANY''), (''/api-explorer'', ''GET'')] \<and>
   map (\<lambda>m. (method_path m, httpMethod m))
     (filter (\<lambda>m. integration_function (integration m) = None)
       (api_methods (mgmt_rest_api ChinaCloudFrontSslPluginStack))) =
     map (\<lambda>r. (r, ''OPTIONS'')) (api_resources (mgmt_rest_api ChinaCloudFrontSslPluginStack))"
  by (simp add: mgmt_api_resources mgmt_api_methods function_ids new_LambdaIntegration_def)

subsection \<open>C7: the permission of the list endpoint\<close>



subsection \<open>C9: the source of the two invoke permissions\<close>

text \<open>
  C9: the explicit permissions of the issuance function, those that the constructor adds
  by its own \<^verbatim>\<open>addPermission\<close> calls, are two, \<^verbatim>\<open>CertCfnCreatedEventInvokeLambda\<close> and
  \<^verbatim>\<open>ScheduledEventsInvokeLambda\<close>, both for \<^verbatim>\<open>events.amazonaws.com\<close>; both have the
  ARN of the lifecycle rule as their source. No explicit permission of any function of
  the stack has the ARN of the schedule rule, which is another ARN: the one permission
  with that source is the one the schedule rule added when it took the function as its
  target.
\<close>

theorem C9_permission_sources:
  "map (\<lambda>p. (permission_id p, principal p, sourceArn p))
     (filter explicit_permission
        (concat (map permissions (all_functions ChinaCloudFrontSslPluginStack)))) =
     [(Named ''CertCfnCreatedEventInvokeLambda'', ''events.amazonaws.com'',
        ruleArn (cfn_created_rule ChinaCloudFrontSslPluginStack)),
      (Named ''ScheduledEventsInvokeLambda'', ''events.amazonaws.com'',
        ruleArn (cfn_created_rule ChinaCloudFrontSslPluginStack))] \<and>
   map permission_id (filter explicit_permission
        (permissions (certbot_lambda_fn ChinaCloudFrontSslPluginStack))) =
     [Named ''CertCfnCreatedEventInvokeLambda'', Named ''ScheduledEventsInvokeLambda''] \<and>
   filter (\<lambda>p. explicit_permission p \<and>
                sourceArn p = ruleArn (scheduled_event_rule ChinaCloudFrontSslPluginStack))
     (concat (map permissions (all_functions ChinaCloudFrontSslPluginStack))) = [] \<and>
   ruleArn (scheduled_event_rule ChinaCloudFrontSslPluginStack) \<noteq>
     ruleArn (cfn_created_rule ChinaCloudFrontSslPluginStack) \<and>
   map permission_id
     (filter (\<lambda>p. sourceArn p = ruleArn (scheduled_event_rule ChinaCloudFrontSslPluginStack))
        (concat (map permissions (all_functions ChinaCloudFrontSslPluginStack)))) =
     [AllowEventRule ''CertScheduledRule'' ''CertBotFunction'']"
  by (simp add: stack_evaluated all_functions_def ruleArn_def)

subsection \<open>C10: the permission of the delete endpoint\<close>

text \<open>
  C10: the role policy of the deleting function is one statement that allows
  \<^verbatim>\<open>iam:DeleteServerCertificate\<close> on the resource \<open>*\<close>; in every stack instance it
  grants the deletion of any resource whatever, not only of the certificates of this
  stack.
\<close>

theorem C10_delete_permission:
  "role_policy (deleteCertFunction ChinaCloudFrontSslPluginStack) =
     [\<lparr>resources = [[Lit ''*'']], actions = [''iam:DeleteServerCertificate''], effect = ALLOW\<rparr>] \<and>
   role_grants d (deleteCertFunction ChinaCloudFrontSslPluginStack)
     ''iam:DeleteServerCertificate'' arn"
  by (simp add: mgmt_role_policies role_grants_def role_statements_def grants_def resolve_def
      glob_star)

subsection \<open>C8: what the parameter declarations check\<close>




end
